theory Spec2Isabelle
  imports Complex_Main "HOL-Library.Log_Nat"
begin

section \<open>The NDJSON writer of \<^verbatim>\<open>src/url/ndjson_writer.py\<close>\<close>

text \<open>
  \<^verbatim>\<open>NdjsonWriter.write\<close> calls eight metric evaluators on the URL of a model, each
  inside its own \<^verbatim>\<open>try ... except Exception\<close>, collects one value per metric and
  one running latency, computes a weighted net score and writes one JSON line.

  Scope of the model.
  \<^item> A Python float is the real number that a finite double stands for. Every
    arithmetic operation of the source rounds its exact result to the nearest double
    (53 significant bits, ties to even, subnormal numbers included), and
    \<^verbatim>\<open>round(x, 3)\<close> gives the double nearest to the decimal rounding of \<open>x\<close>.
    Overflow, NaN, the infinities and the sign of zero are outside the model.
  \<^item> The exceptions of the evaluators are instances of \<^verbatim>\<open>Exception\<close>, which is what
    the handlers of the source catch; a last part adds the calls that end with an
    exception outside \<^verbatim>\<open>Exception\<close>.
  \<^item> The evaluators and \<^verbatim>\<open>_hf_model_id_from_url\<close> live in other modules; they are
    parameters of the model. An evaluator is a function from the URL to either a
    raised exception or the returned object (\<^verbatim>\<open>None\<close> or a result with the attributes
    \<^verbatim>\<open>score\<close> and \<^verbatim>\<open>latency_ms\<close>).
  \<^item> The text of a JSON line is not rendered: an output event carries the record that
    \<^verbatim>\<open>json.dumps\<close> receives, with its keys in insertion order.
\<close>

subsection \<open>Values that cross the interface\<close>

datatype py_exception = KeyError | AttributeError | TypeError | ValueError | EvaluatorFault

text \<open>
  The attribute \<^verbatim>\<open>score\<close> of a result: \<^verbatim>\<open>None\<close>, something \<^verbatim>\<open>float()\<close> accepts
  (with the value it converts to), or something \<^verbatim>\<open>float()\<close> rejects.
\<close>

datatype score_val = ScoreNone | ScoreNum real | ScoreInvalid

record metric_result =
  score :: score_val
  latency_ms :: "int option"

type_synonym evaluator = "string \<Rightarrow> py_exception + metric_result option"

datatype json = JString string | JFloat real | JInt int

type_synonym json_record = "(string \<times> json) list"

text \<open>
  \<open>Write_line r\<close> is \<^verbatim>\<open>out.write(json.dumps(r) + "\n")\<close>, \<open>Flush\<close> is
  \<^verbatim>\<open>out.flush()\<close>.
\<close>

datatype out_event = Write_line json_record | Flush

record writer =
  out :: "out_event list"
  calc_metrics :: "string \<rightharpoonup> evaluator"
  perf_metric :: evaluator

record model_item =
  model_url :: string

record locals =
  all_metrics :: "string \<rightharpoonup> real"
  total_latency :: int

subsection \<open>Python primitives\<close>

text \<open>\<^verbatim>\<open>float(v)\<close>: a \<^verbatim>\<open>TypeError\<close> on \<^verbatim>\<open>None\<close>, a fault on what is no number.\<close>

fun py_float :: "score_val \<Rightarrow> py_exception + real" where
  "py_float ScoreNone = Inl TypeError"
| "py_float (ScoreNum x) = Inr x"
| "py_float ScoreInvalid = Inl ValueError"

text \<open>Rounding to the nearest integer, an exact tie going to the even neighbour.\<close>

definition round_half_even :: "real \<Rightarrow> int" where
  "round_half_even x =
     (let f = \<lfloor>x\<rfloor>; d = x - of_int f
      in if d < 1 / 2 then f
         else if 1 / 2 < d then f + 1
         else if even f then f else f + 1)"

text \<open>
  The position of the leading bit of a positive real: \<open>2 ^ k \<le> x < 2 ^ (k + 1)\<close> for
  \<open>k = floor_log2 x\<close>.
\<close>

definition floor_log2 :: "real \<Rightarrow> int" where
  "floor_log2 x =
     (if 1 \<le> x then int (floorlog 2 (nat \<lfloor>x\<rfloor>)) - 1
      else - int (floorlog 2 (nat (\<lceil>1 / x\<rceil> - 1))))"

text \<open>
  The exponent of the last bit of the doubles around \<open>x\<close>: 53 bits below the leading
  bit, and never below the subnormal spacing \<open>2 ^ - 1074\<close>.
\<close>

definition ulp_exp :: "real \<Rightarrow> int" where
  "ulp_exp x = max (- 1074) (floor_log2 \<bar>x\<bar> - 52)"

text \<open>Rounding a real to the nearest double, ties to even.\<close>

definition nearest_double :: "real \<Rightarrow> real" where
  "nearest_double x =
     (if x = 0 then 0
      else of_int (round_half_even (x / 2 powi ulp_exp x)) * 2 powi ulp_exp x)"

text \<open>\<^verbatim>\<open>x + y\<close>, \<^verbatim>\<open>x * y\<close> and \<^verbatim>\<open>x / y\<close> on floats.\<close>

definition float_add :: "real \<Rightarrow> real \<Rightarrow> real" where
  "float_add x y = nearest_double (x + y)"

definition float_mul :: "real \<Rightarrow> real \<Rightarrow> real" where
  "float_mul x y = nearest_double (x * y)"

definition float_div :: "real \<Rightarrow> real \<Rightarrow> real" where
  "float_div x y = nearest_double (x / y)"

text \<open>
  \<^verbatim>\<open>round(x, 3)\<close>: the exact value of \<open>x\<close> is rounded to three decimals, an exact
  tie going to the even digit, and the result is the double nearest to that decimal.
\<close>

definition py_round3 :: "real \<Rightarrow> real" where
  "py_round3 x = nearest_double (of_int (round_half_even (x * 1000)) / 1000)"

text \<open>\<^verbatim>\<open>v if v else 0\<close> on a latency: \<^verbatim>\<open>None\<close> and \<^verbatim>\<open>0\<close> are falsy.\<close>

definition latency_or_zero :: "int option \<Rightarrow> int" where
  "latency_or_zero l = (case l of None \<Rightarrow> 0 | Some n \<Rightarrow> if n \<noteq> 0 then n else 0)"

subsection \<open>Statements that may raise\<close>

text \<open>
  A statement maps the local variables to the variables reached, either normally
  (\<open>Inr\<close>) or together with the exception raised (\<open>Inl\<close>).
\<close>

type_synonym stmt = "locals \<Rightarrow> (py_exception \<times> locals) + locals"

definition seq :: "stmt \<Rightarrow> stmt \<Rightarrow> stmt" where
  "seq s1 s2 st = (case s1 st of Inl x \<Rightarrow> Inl x | Inr st' \<Rightarrow> s2 st')"

text \<open>\<^verbatim>\<open>try: body except Exception: handler\<close>.\<close>

definition try_except :: "stmt \<Rightarrow> stmt \<Rightarrow> stmt" where
  "try_except body handler st =
     (case body st of Inr st' \<Rightarrow> Inr st' | Inl (e, st') \<Rightarrow> handler st')"

text \<open>The handler of every block: \<^verbatim>\<open>all_metrics[key] = 0.0\<close>.\<close>

definition default_zero :: "string \<Rightarrow> stmt" where
  "default_zero key st = Inr (st\<lparr>all_metrics := (all_metrics st)(key \<mapsto> 0)\<rparr>)"

text \<open>\<^verbatim>\<open>self.calc.metrics[key].calculate(url)\<close>: the lookup raises on a missing key.\<close>

definition calc_calculate :: "writer \<Rightarrow> string \<Rightarrow> string \<Rightarrow> py_exception + metric_result option" where
  "calc_calculate self key url =
     (case calc_metrics self key of None \<Rightarrow> Inl KeyError | Some ev \<Rightarrow> ev url)"

subsection \<open>The eight blocks\<close>

text \<open>
  The body of the blocks for \<^verbatim>\<open>ramp_up_time\<close>, \<^verbatim>\<open>bus_factor\<close>, \<^verbatim>\<open>size_score\<close>,
  \<^verbatim>\<open>dataset_and_code_score\<close>, \<^verbatim>\<open>dataset_quality\<close> and \<^verbatim>\<open>code_quality\<close>:
  \<^verbatim>\<open>
  res = self.calc.metrics[key].calculate(item.model_url)
  all_metrics[key] = round(float(res.score), 3) if res.score is not None else 0.0
  total_latency += res.latency_ms if res.latency_ms else 0
  \<close>
  Reading an attribute of \<^verbatim>\<open>None\<close> raises. Every raise of the body happens before
  its first assignment, so the variables at the raise are those at entry.
\<close>

definition guarded_body :: "writer \<Rightarrow> string \<Rightarrow> string \<Rightarrow> stmt" where
  "guarded_body self key url st =
     (case calc_calculate self key url of
        Inl e \<Rightarrow> Inl (e, st)
      | Inr None \<Rightarrow> Inl (AttributeError, st)
      | Inr (Some res) \<Rightarrow>
          (case (if score res \<noteq> ScoreNone then map_sum id py_round3 (py_float (score res))
                 else Inr 0) of
             Inl e \<Rightarrow> Inl (e, st)
           | Inr v \<Rightarrow>
               Inr (st\<lparr>all_metrics := (all_metrics st)(key \<mapsto> v),
                        total_latency := total_latency st + latency_or_zero (latency_ms res)\<rparr>)))"

definition guarded_block :: "writer \<Rightarrow> string \<Rightarrow> string \<Rightarrow> stmt" where
  "guarded_block self key url = try_except (guarded_body self key url) (default_zero key)"

text \<open>
  The body of the block for \<^verbatim>\<open>license\<close> converts the score without the test for
  \<^verbatim>\<open>None\<close>:
  \<^verbatim>\<open>
  lic_res = self.calc.metrics["license"].calculate(item.model_url)
  all_metrics["license"] = round(float(lic_res.score), 3)
  total_latency += lic_res.latency_ms if lic_res.latency_ms else 0
  \<close>
\<close>

definition license_body :: "writer \<Rightarrow> string \<Rightarrow> stmt" where
  "license_body self url st =
     (case calc_calculate self ''license'' url of
        Inl e \<Rightarrow> Inl (e, st)
      | Inr None \<Rightarrow> Inl (AttributeError, st)
      | Inr (Some res) \<Rightarrow>
          (case map_sum id py_round3 (py_float (score res)) of
             Inl e \<Rightarrow> Inl (e, st)
           | Inr v \<Rightarrow>
               Inr (st\<lparr>all_metrics := (all_metrics st)(''license'' \<mapsto> v),
                        total_latency := total_latency st + latency_or_zero (latency_ms res)\<rparr>)))"

definition license_block :: "writer \<Rightarrow> string \<Rightarrow> stmt" where
  "license_block self url = try_except (license_body self url) (default_zero ''license'')"

text \<open>
  The body of the block for \<^verbatim>\<open>performance_claims\<close> calls the evaluator of its own
  and tests the result object before reading it:
  \<^verbatim>\<open>
  pc_res = self.perf_metric.calculate(item.model_url)
  score = float(pc_res.score) if pc_res and pc_res.score is not None else 0.0
  all_metrics["performance_claims"] = 1.0 if score >= 0.5 else 0.0
  total_latency += pc_res.latency_ms if pc_res and pc_res.latency_ms else 0
  \<close>
\<close>

definition performance_claims_body :: "writer \<Rightarrow> string \<Rightarrow> stmt" where
  "performance_claims_body self url st =
     (case perf_metric self url of
        Inl e \<Rightarrow> Inl (e, st)
      | Inr pc_res \<Rightarrow>
          (case (case pc_res of
                   None \<Rightarrow> Inr 0
                 | Some res \<Rightarrow> if score res \<noteq> ScoreNone then py_float (score res) else Inr 0) of
             Inl e \<Rightarrow> Inl (e, st)
           | Inr s \<Rightarrow>
               Inr (st\<lparr>all_metrics :=
                          (all_metrics st)(''performance_claims'' \<mapsto> if 1 / 2 \<le> s then 1 else 0),
                        total_latency := total_latency st +
                          (case pc_res of None \<Rightarrow> 0 | Some res \<Rightarrow> latency_or_zero (latency_ms res))\<rparr>)))"

definition performance_claims_block :: "writer \<Rightarrow> string \<Rightarrow> stmt" where
  "performance_claims_block self url =
     try_except (performance_claims_body self url) (default_zero ''performance_claims'')"

text \<open>The blocks in the order of the source.\<close>

definition collect_metrics :: "writer \<Rightarrow> string \<Rightarrow> stmt" where
  "collect_metrics self url =
     seq (guarded_block self ''ramp_up_time'' url)
    (seq (guarded_block self ''bus_factor'' url)
    (seq (license_block self url)
    (seq (performance_claims_block self url)
    (seq (guarded_block self ''size_score'' url)
    (seq (guarded_block self ''dataset_and_code_score'' url)
    (seq (guarded_block self ''dataset_quality'' url)
         (guarded_block self ''code_quality'' url)))))))"

subsection \<open>The net score\<close>

text \<open>The literals \<^verbatim>\<open>0.15\<close> and \<^verbatim>\<open>0.10\<close> are the doubles nearest to them.\<close>

definition weights :: "(string \<times> real) list" where
  "weights =
     [(''ramp_up_time'', nearest_double (15 / 100)),
      (''bus_factor'', nearest_double (10 / 100)),
      (''performance_claims'', nearest_double (15 / 100)),
      (''license'', nearest_double (15 / 100)),
      (''size_score'', nearest_double (15 / 100)),
      (''dataset_and_code_score'', nearest_double (10 / 100)),
      (''dataset_quality'', nearest_double (10 / 100)),
      (''code_quality'', nearest_double (10 / 100))]"

text \<open>
  The loop over \<^verbatim>\<open>weights.items()\<close>, on the pair \<open>(net_score, total_weight)\<close>:
  \<^verbatim>\<open>
  if metric in all_metrics:
      net_score += all_metrics[metric] * weight
      total_weight += weight
  \<close>
\<close>

fun weighted_loop :: "(string \<times> real) list \<Rightarrow> (string \<rightharpoonup> real) \<Rightarrow> real \<times> real \<Rightarrow> real \<times> real" where
  "weighted_loop [] m acc = acc"
| "weighted_loop ((metric, weight) # rest) m (net_score, total_weight) =
     (case m metric of
        Some v \<Rightarrow>
          weighted_loop rest m
            (float_add net_score (float_mul v weight), float_add total_weight weight)
      | None \<Rightarrow> weighted_loop rest m (net_score, total_weight))"

text \<open>
  \<^verbatim>\<open>net_score = round(net_score / total_weight, 3) if total_weight > 0 else 0.0\<close>
\<close>

definition compute_net_score :: "(string \<times> real) list \<Rightarrow> (string \<rightharpoonup> real) \<Rightarrow> real" where
  "compute_net_score ws m =
     (case weighted_loop ws m (0, 0) of
        (net_score, total_weight) \<Rightarrow>
          if 0 < total_weight then py_round3 (float_div net_score total_weight) else 0)"

subsection \<open>The record and the write\<close>

text \<open>\<^verbatim>\<open>all_metrics.get(key, 0.0)\<close>.\<close>

definition get_metric :: "(string \<rightharpoonup> real) \<Rightarrow> string \<Rightarrow> real" where
  "get_metric m key = (case m key of None \<Rightarrow> 0 | Some v \<Rightarrow> v)"

text \<open>
  \<^verbatim>\<open>_hf_model_id_from_url(url) or url\<close>: the empty string is falsy, as \<^verbatim>\<open>None\<close> is.
\<close>

definition name_or_url :: "string option \<Rightarrow> string \<Rightarrow> string" where
  "name_or_url ident url = (case ident of None \<Rightarrow> url | Some s \<Rightarrow> if s \<noteq> [] then s else url)"

definition build_record :: "(string \<Rightarrow> string option) \<Rightarrow> string \<Rightarrow> real \<Rightarrow> locals \<Rightarrow> json_record" where
  "build_record hf_model_id_from_url url net_score st =
     [(''name'', JString (name_or_url (hf_model_id_from_url url) url)),
      (''category'', JString ''MODEL''),
      (''NET_SCORE'', JFloat net_score),
      (''ramp_up_time'', JFloat (get_metric (all_metrics st) ''ramp_up_time'')),
      (''bus_factor'', JFloat (get_metric (all_metrics st) ''bus_factor'')),
      (''performance_claims'', JFloat (get_metric (all_metrics st) ''performance_claims'')),
      (''license'', JFloat (get_metric (all_metrics st) ''license'')),
      (''size_score'', JFloat (get_metric (all_metrics st) ''size_score'')),
      (''dataset_and_code_score'', JFloat (get_metric (all_metrics st) ''dataset_and_code_score'')),
      (''dataset_quality'', JFloat (get_metric (all_metrics st) ''dataset_quality'')),
      (''code_quality'', JFloat (get_metric (all_metrics st) ''code_quality'')),
      (''latency'', JInt (max 1 (total_latency st)))]"

text \<open>
  \<^verbatim>\<open>NdjsonWriter.write\<close> (\<open>write\<close> is a keyword of Isar): the result is the exception
  that escapes, or the writer with its output extended.
\<close>

definition writer_write :: "(string \<Rightarrow> string option) \<Rightarrow> writer \<Rightarrow> model_item \<Rightarrow> py_exception + writer" where
  "writer_write hf_model_id_from_url self item =
     (case collect_metrics self (model_url item) \<lparr>all_metrics = Map.empty, total_latency = 0\<rparr> of
        Inl (e, st) \<Rightarrow> Inl e
      | Inr st \<Rightarrow>
          (let net_score = compute_net_score weights (all_metrics st);
               rec = build_record hf_model_id_from_url (model_url item) net_score st
           in Inr (self\<lparr>out := out self @ [Write_line rec, Flush]\<rparr>)))"

subsection \<open>Vocabulary of the properties\<close>

text \<open>The eight metric names, in the order of their blocks.\<close>

definition metric_names :: "string list" where
  "metric_names =
     [''ramp_up_time'', ''bus_factor'', ''license'', ''performance_claims'',
      ''size_score'', ''dataset_and_code_score'', ''dataset_quality'', ''code_quality'']"

text \<open>
  What the call made for a metric gives: \<^verbatim>\<open>performance_claims\<close> goes to
  \<^verbatim>\<open>self.perf_metric\<close>, every other name to its entry of \<^verbatim>\<open>self.calc.metrics\<close>.
\<close>

definition invoke :: "writer \<Rightarrow> string \<Rightarrow> string \<Rightarrow> py_exception + metric_result option" where
  "invoke self key url =
     (if key = ''performance_claims'' then perf_metric self url else calc_calculate self key url)"

text \<open>The body and the block of a metric, by its name.\<close>

definition body_of :: "writer \<Rightarrow> string \<Rightarrow> string \<Rightarrow> stmt" where
  "body_of self key url =
     (if key = ''license'' then license_body self url
      else if key = ''performance_claims'' then performance_claims_body self url
      else guarded_body self key url)"

definition block_of :: "writer \<Rightarrow> string \<Rightarrow> string \<Rightarrow> stmt" where
  "block_of self key url =
     (if key = ''license'' then license_block self url
      else if key = ''performance_claims'' then performance_claims_block self url
      else guarded_block self key url)"

definition initial_locals :: locals where
  "initial_locals = \<lparr>all_metrics = Map.empty, total_latency = 0\<rparr>"

text \<open>The \<^verbatim>\<open>except\<close> branch of the metric's block is taken: its body raises.\<close>

definition handler_runs :: "writer \<Rightarrow> string \<Rightarrow> string \<Rightarrow> bool" where
  "handler_runs self key url =
     (case body_of self key url initial_locals of Inl x \<Rightarrow> True | Inr st \<Rightarrow> False)"

text \<open>The raw score when the call returns a result whose score is a number.\<close>

definition numeric_score :: "py_exception + metric_result option \<Rightarrow> real option" where
  "numeric_score c =
     (case c of
        Inr (Some res) \<Rightarrow> (case score res of ScoreNum x \<Rightarrow> Some x | _ \<Rightarrow> None)
      | _ \<Rightarrow> None)"

text \<open>The call returns a result whose score is \<^verbatim>\<open>None\<close>.\<close>

definition score_missing :: "py_exception + metric_result option \<Rightarrow> bool" where
  "score_missing c =
     (case c of Inr (Some res) \<Rightarrow> score res = ScoreNone | _ \<Rightarrow> False)"

text \<open>
  The latency the call reports: that of the result it returns, an absent one and a
  call without a result counting as zero.
\<close>

definition reported_latency :: "py_exception + metric_result option \<Rightarrow> int" where
  "reported_latency c =
     (case c of Inr (Some res) \<Rightarrow> latency_or_zero (latency_ms res) | _ \<Rightarrow> 0)"

text \<open>The value a block leaves for its metric, and what it adds to the latency.\<close>

definition metric_value :: "writer \<Rightarrow> string \<Rightarrow> string \<Rightarrow> real" where
  "metric_value self key url =
     (case numeric_score (invoke self key url) of
        None \<Rightarrow> 0
      | Some x \<Rightarrow>
          if key = ''performance_claims'' then (if 1 / 2 \<le> x then 1 else 0) else py_round3 x)"

definition latency_added :: "writer \<Rightarrow> string \<Rightarrow> string \<Rightarrow> int" where
  "latency_added self key url =
     (if handler_runs self key url then 0 else reported_latency (invoke self key url))"

text \<open>The record of the line that a write appends, and its fields.\<close>

definition emitted :: "(string \<Rightarrow> string option) \<Rightarrow> writer \<Rightarrow> model_item \<Rightarrow> json_record option" where
  "emitted hf self item =
     (case writer_write hf self item of
        Inl e \<Rightarrow> None
      | Inr self' \<Rightarrow>
          (case drop (length (out self)) (out self') of
             [Write_line r, Flush] \<Rightarrow> Some r
           | _ \<Rightarrow> None))"

definition emitted_field :: "(string \<Rightarrow> string option) \<Rightarrow> writer \<Rightarrow> model_item \<Rightarrow> string \<Rightarrow> json option" where
  "emitted_field hf self item key =
     (case emitted hf self item of None \<Rightarrow> None | Some r \<Rightarrow> map_of r key)"

definition emitted_float :: "(string \<Rightarrow> string option) \<Rightarrow> writer \<Rightarrow> model_item \<Rightarrow> string \<Rightarrow> real option" where
  "emitted_float hf self item key =
     (case emitted_field hf self item key of Some (JFloat x) \<Rightarrow> Some x | _ \<Rightarrow> None)"


text \<open>
  The net score in the words of the specification: the sum of value times weight
  over the metrics present, divided by the sum of their weights and rounded to three
  decimals; \<open>0\<close> when that sum of weights is zero. The sums run over the weight table
  in its order and, like the product and the quotient, are operations on floats.
\<close>

definition float_sum :: "real list \<Rightarrow> real" where
  "float_sum xs = foldl float_add 0 xs"

definition present :: "(string \<times> real) list \<Rightarrow> (string \<rightharpoonup> real) \<Rightarrow> (string \<times> real) list" where
  "present ws m = filter (\<lambda>(k, w). m k \<noteq> None) ws"


definition present_weight :: "(string \<times> real) list \<Rightarrow> (string \<rightharpoonup> real) \<Rightarrow> real" where
  "present_weight ws m = float_sum (map snd (present ws m))"


text \<open>The metrics map after the eight blocks, started on the empty map.\<close>

definition collected_metrics :: "writer \<Rightarrow> string \<Rightarrow> (string \<rightharpoonup> real)" where
  "collected_metrics self url =
     [''ramp_up_time'' \<mapsto> metric_value self ''ramp_up_time'' url,
      ''bus_factor'' \<mapsto> metric_value self ''bus_factor'' url,
      ''license'' \<mapsto> metric_value self ''license'' url,
      ''performance_claims'' \<mapsto> metric_value self ''performance_claims'' url,
      ''size_score'' \<mapsto> metric_value self ''size_score'' url,
      ''dataset_and_code_score'' \<mapsto> metric_value self ''dataset_and_code_score'' url,
      ''dataset_quality'' \<mapsto> metric_value self ''dataset_quality'' url,
      ''code_quality'' \<mapsto> metric_value self ''code_quality'' url]"



subsection \<open>Concrete writers\<close>

text \<open>An evaluator that returns a result, and one that raises.\<close>

definition returns :: "score_val \<Rightarrow> int option \<Rightarrow> evaluator" where
  "returns s l url = Inr (Some \<lparr>score = s, latency_ms = l\<rparr>)"

definition raises :: evaluator where
  "raises url = Inl EvaluatorFault"

text \<open>A writer on an empty stream whose evaluators are given by name.\<close>

definition writer_of :: "(string \<Rightarrow> evaluator) \<Rightarrow> writer" where
  "writer_of ev =
     \<lparr>out = [],
      calc_metrics = (\<lambda>k. if k \<in> set metric_names then Some (ev k) else None),
      perf_metric = ev ''performance_claims''\<rparr>"

definition bert :: model_item where
  "bert = \<lparr>model_url = ''https://huggingface.co/bert-base-uncased''\<rparr>"

text \<open>Every evaluator returns score \<open>1.0\<close> and latency \<open>10\<close>.\<close>

definition all_ones :: writer where
  "all_ones = writer_of (\<lambda>k. returns (ScoreNum 1) (Some 10))"

text \<open>The evaluator of \<^verbatim>\<open>license\<close> raises, the others return \<open>1.0\<close> and \<open>10\<close>.\<close>

definition license_raises :: writer where
  "license_raises =
     writer_of (\<lambda>k. if k = ''license'' then raises else returns (ScoreNum 1) (Some 10))"

text \<open>
  The evaluator of \<^verbatim>\<open>ramp_up_time\<close> returns a result without a score and with
  latency \<open>10\<close>, the others raise.
\<close>

definition ramp_up_unscored :: writer where
  "ramp_up_unscored =
     writer_of (\<lambda>k. if k = ''ramp_up_time'' then returns ScoreNone (Some 10) else raises)"

text \<open>
  The evaluator of \<^verbatim>\<open>license\<close> returns a result without a score and with latency
  \<open>10\<close>, the others return \<open>1.0\<close> and \<open>10\<close>.
\<close>

definition license_unscored :: writer where
  "license_unscored =
     writer_of (\<lambda>k. if k = ''license'' then returns ScoreNone (Some 10)
                    else returns (ScoreNum 1) (Some 10))"

text \<open>Every evaluator returns \<open>1.0\<close> and no latency.\<close>

definition no_latency :: writer where
  "no_latency = writer_of (\<lambda>k. returns (ScoreNum 1) None)"




text \<open>A resolver that finds no identifier, and one that finds the last path segment.\<close>

definition no_id :: "string \<Rightarrow> string option" where
  "no_id url = None"

definition bert_id :: "string \<Rightarrow> string option" where
  "bert_id url = Some ''bert-base-uncased''"

subsection \<open>Exceptions outside \<^verbatim>\<open>Exception\<close>\<close>

text \<open>
  \<^verbatim>\<open>except Exception\<close> catches the instances of \<^verbatim>\<open>Exception\<close> only. The classes
  \<^verbatim>\<open>KeyboardInterrupt\<close>, \<^verbatim>\<open>SystemExit\<close> and \<^verbatim>\<open>GeneratorExit\<close> derive from
  \<^verbatim>\<open>BaseException\<close> directly, and a call can end with one of them as well.
\<close>

datatype system_exiting = KeyboardInterrupt | SystemExit | GeneratorExit

datatype raised = Exception py_exception | Exiting system_exiting

text \<open>
  \<open>ex key url = Some b\<close> says that the call made for the metric \<open>key\<close> ends with
  \<open>b\<close>; otherwise it ends as the evaluator of the writer says.
\<close>

type_synonym exits = "string \<Rightarrow> string \<Rightarrow> system_exiting option"

type_synonym exit_stmt = "locals \<Rightarrow> (raised \<times> locals) + locals"

definition body_with_exits :: "exits \<Rightarrow> writer \<Rightarrow> string \<Rightarrow> string \<Rightarrow> exit_stmt" where
  "body_with_exits ex self key url st =
     (case ex key url of
        Some b \<Rightarrow> Inl (Exiting b, st)
      | None \<Rightarrow>
          (case body_of self key url st of
             Inl (e, st') \<Rightarrow> Inl (Exception e, st')
           | Inr st' \<Rightarrow> Inr st'))"

text \<open>
  \<^verbatim>\<open>try: body except Exception: handler\<close> with the test of the class: what is no
  instance of \<^verbatim>\<open>Exception\<close> passes through.
\<close>

definition try_except_Exception :: "exit_stmt \<Rightarrow> stmt \<Rightarrow> exit_stmt" where
  "try_except_Exception body handler st =
     (case body st of
        Inr st' \<Rightarrow> Inr st'
      | Inl (Exception e, st') \<Rightarrow>
          (case handler st' of
             Inr st'' \<Rightarrow> Inr st''
           | Inl (e', st'') \<Rightarrow> Inl (Exception e', st''))
      | Inl (Exiting b, st') \<Rightarrow> Inl (Exiting b, st'))"

definition block_with_exits :: "exits \<Rightarrow> writer \<Rightarrow> string \<Rightarrow> string \<Rightarrow> exit_stmt" where
  "block_with_exits ex self key url =
     try_except_Exception (body_with_exits ex self key url) (default_zero key)"

definition seq_exits :: "exit_stmt \<Rightarrow> exit_stmt \<Rightarrow> exit_stmt" where
  "seq_exits s1 s2 st = (case s1 st of Inl x \<Rightarrow> Inl x | Inr st' \<Rightarrow> s2 st')"

definition collect_with_exits :: "exits \<Rightarrow> writer \<Rightarrow> string \<Rightarrow> exit_stmt" where
  "collect_with_exits ex self url =
     seq_exits (block_with_exits ex self ''ramp_up_time'' url)
    (seq_exits (block_with_exits ex self ''bus_factor'' url)
    (seq_exits (block_with_exits ex self ''license'' url)
    (seq_exits (block_with_exits ex self ''performance_claims'' url)
    (seq_exits (block_with_exits ex self ''size_score'' url)
    (seq_exits (block_with_exits ex self ''dataset_and_code_score'' url)
    (seq_exits (block_with_exits ex self ''dataset_quality'' url)
               (block_with_exits ex self ''code_quality'' url)))))))"

text \<open>
  \<^verbatim>\<open>NdjsonWriter.write\<close> with such calls: an exception that passes a block leaves the
  write before anything is written.
\<close>

definition write_with_exits ::
  "exits \<Rightarrow> (string \<Rightarrow> string option) \<Rightarrow> writer \<Rightarrow> model_item \<Rightarrow> raised + writer" where
  "write_with_exits ex hf_model_id_from_url self item =
     (case collect_with_exits ex self (model_url item)
             \<lparr>all_metrics = Map.empty, total_latency = 0\<rparr> of
        Inl (e, st) \<Rightarrow> Inl e
      | Inr st \<Rightarrow>
          (let net_score = compute_net_score weights (all_metrics st);
               rec = build_record hf_model_id_from_url (model_url item) net_score st
           in Inr (self\<lparr>out := out self @ [Write_line rec, Flush]\<rparr>)))"

text \<open>No call ends outside \<^verbatim>\<open>Exception\<close>; the call for \<^verbatim>\<open>license\<close> is interrupted.\<close>

definition no_exits :: exits where
  "no_exits key url = None"

definition license_interrupted :: exits where
  "license_interrupted key url = (if key = ''license'' then Some KeyboardInterrupt else None)"

section \<open>Properties of the writer\<close>

subsection \<open>The blocks in closed form\<close>

text \<open>
  Each block ends normally, whatever its evaluator does: it leaves a value for its
  key and adds a latency, both determined by the outcome of the call.
\<close>

lemma round_float_cases:
  "map_sum id py_round3 (py_float s) =
     (case s of ScoreNone \<Rightarrow> Inl TypeError | ScoreNum x \<Rightarrow> Inr (py_round3 x) | ScoreInvalid \<Rightarrow> Inl ValueError)"
  by (cases s) simp_all

lemma py_float_cases:
  "py_float s =
     (case s of ScoreNone \<Rightarrow> Inl TypeError | ScoreNum x \<Rightarrow> Inr x | ScoreInvalid \<Rightarrow> Inl ValueError)"
  by (cases s) simp_all

lemma guarded_block_eq:
  "key \<noteq> ''license'' \<Longrightarrow> key \<noteq> ''performance_claims'' \<Longrightarrow>
   guarded_block self key url st =
     Inr (st\<lparr>all_metrics := (all_metrics st)(key \<mapsto> metric_value self key url),
             total_latency := total_latency st + latency_added self key url\<rparr>)"
  by (cases "calc_calculate self key url")
     (auto simp: guarded_block_def try_except_def guarded_body_def default_zero_def
        metric_value_def latency_added_def handler_runs_def body_of_def invoke_def
        numeric_score_def reported_latency_def
        split: option.splits score_val.splits sum.splits)

lemma license_block_eq:
  "license_block self url st =
     Inr (st\<lparr>all_metrics := (all_metrics st)(''license'' \<mapsto> metric_value self ''license'' url),
             total_latency := total_latency st + latency_added self ''license'' url\<rparr>)"
  by (cases "calc_calculate self ''license'' url")
     (auto simp: license_block_def try_except_def license_body_def default_zero_def
        metric_value_def latency_added_def handler_runs_def body_of_def invoke_def
        numeric_score_def reported_latency_def
        split: option.splits score_val.splits sum.splits)

lemma performance_claims_block_eq:
  "performance_claims_block self url st =
     Inr (st\<lparr>all_metrics := (all_metrics st)(''performance_claims'' \<mapsto> metric_value self ''performance_claims'' url),
             total_latency := total_latency st + latency_added self ''performance_claims'' url\<rparr>)"
  by (cases "perf_metric self url")
     (auto simp: performance_claims_block_def try_except_def performance_claims_body_def default_zero_def
        metric_value_def latency_added_def handler_runs_def body_of_def invoke_def
        numeric_score_def reported_latency_def
        split: option.splits score_val.splits sum.splits)

lemma block_of_eq:
  "block_of self key url st =
     Inr (st\<lparr>all_metrics := (all_metrics st)(key \<mapsto> metric_value self key url),
             total_latency := total_latency st + latency_added self key url\<rparr>)"
  by (simp add: block_of_def guarded_block_eq license_block_eq performance_claims_block_eq)

text \<open>
  When the handler runs: the call raises; it returns \<^verbatim>\<open>None\<close> where the result is read
  unguarded; the score is rejected by \<^verbatim>\<open>float()\<close>; or, for \<^verbatim>\<open>license\<close> alone, the
  score is \<^verbatim>\<open>None\<close>.
\<close>

lemma handler_runs_iff:
  "handler_runs self key url =
     (case invoke self key url of
        Inl e \<Rightarrow> True
      | Inr None \<Rightarrow> key \<noteq> ''performance_claims''
      | Inr (Some res) \<Rightarrow>
          (case score res of
             ScoreNum x \<Rightarrow> False
           | ScoreNone \<Rightarrow> key = ''license''
           | ScoreInvalid \<Rightarrow> True))"
proof -
  consider (lic) "key = ''license''" | (perf) "key = ''performance_claims''"
    | (other) "key \<noteq> ''license''" "key \<noteq> ''performance_claims''"
    by blast
  then show ?thesis
  proof cases
    case lic
    then show ?thesis
      by (auto simp: handler_runs_def body_of_def invoke_def license_body_def round_float_cases
            split: option.splits score_val.splits sum.splits)
  next
    case perf
    then show ?thesis
      by (auto simp: handler_runs_def body_of_def invoke_def performance_claims_body_def
            py_float_cases split: option.splits score_val.splits sum.splits)
  next
    case other
    then show ?thesis
      by (auto simp: handler_runs_def body_of_def invoke_def guarded_body_def round_float_cases
            split: option.splits score_val.splits sum.splits)
  qed
qed

lemma collect_metrics_eq:
  "collect_metrics self url st =
     Inr (st\<lparr>all_metrics := (all_metrics st)
              (''ramp_up_time'' \<mapsto> metric_value self ''ramp_up_time'' url,
               ''bus_factor'' \<mapsto> metric_value self ''bus_factor'' url,
               ''license'' \<mapsto> metric_value self ''license'' url,
               ''performance_claims'' \<mapsto> metric_value self ''performance_claims'' url,
               ''size_score'' \<mapsto> metric_value self ''size_score'' url,
               ''dataset_and_code_score'' \<mapsto> metric_value self ''dataset_and_code_score'' url,
               ''dataset_quality'' \<mapsto> metric_value self ''dataset_quality'' url,
               ''code_quality'' \<mapsto> metric_value self ''code_quality'' url),
             total_latency := total_latency st + (\<Sum>k\<leftarrow>metric_names. latency_added self k url)\<rparr>)"
  by (simp add: collect_metrics_def seq_def guarded_block_eq license_block_eq
        performance_claims_block_eq metric_names_def)

lemma collect_initial:
  "collect_metrics self url \<lparr>all_metrics = Map.empty, total_latency = 0\<rparr> =
     Inr \<lparr>all_metrics = collected_metrics self url,
          total_latency = (\<Sum>k\<leftarrow>metric_names. latency_added self k url)\<rparr>"
  by (simp add: collect_metrics_eq collected_metrics_def)

lemma collected_metrics_apply:
  "collected_metrics self url k =
     (if k \<in> set metric_names then Some (metric_value self k url) else None)"
  by (simp add: collected_metrics_def metric_names_def)

lemma dom_collected_metrics: "dom (collected_metrics self url) = set metric_names"
  by (auto simp: collected_metrics_apply dom_def)

subsection \<open>The emitted record\<close>

lemma writer_write_eq:
  "writer_write hf self item =
     Inr (self\<lparr>out := out self @
       [Write_line
          (build_record hf (model_url item)
             (compute_net_score weights (collected_metrics self (model_url item)))
             \<lparr>all_metrics = collected_metrics self (model_url item),
              total_latency = (\<Sum>k\<leftarrow>metric_names. latency_added self k (model_url item))\<rparr>),
        Flush]\<rparr>)"
  by (simp add: writer_write_def collect_initial)

lemma emitted_eq:
  "emitted hf self item =
     Some (build_record hf (model_url item)
             (compute_net_score weights (collected_metrics self (model_url item)))
             \<lparr>all_metrics = collected_metrics self (model_url item),
              total_latency = (\<Sum>k\<leftarrow>metric_names. latency_added self k (model_url item))\<rparr>)"
  by (simp add: emitted_def writer_write_eq)

lemma emitted_metric:
  "k \<in> set metric_names \<Longrightarrow>
   emitted_field hf self item k = Some (JFloat (metric_value self k (model_url item)))"
  by (auto simp: emitted_field_def emitted_eq build_record_def get_metric_def
        collected_metrics_apply metric_names_def)

lemma emitted_net_score:
  "emitted_field hf self item ''NET_SCORE'' =
     Some (JFloat (compute_net_score weights (collected_metrics self (model_url item))))"
  by (simp add: emitted_field_def emitted_eq build_record_def)

lemma emitted_latency:
  "emitted_field hf self item ''latency'' =
     Some (JInt (max 1 (\<Sum>k\<leftarrow>metric_names. latency_added self k (model_url item))))"
  by (simp add: emitted_field_def emitted_eq build_record_def)

lemma emitted_name:
  "emitted_field hf self item ''name'' =
     Some (JString (name_or_url (hf (model_url item)) (model_url item)))"
  by (simp add: emitted_field_def emitted_eq build_record_def)

lemma emitted_float_metric:
  "k \<in> set metric_names \<Longrightarrow>
   emitted_float hf self item k = Some (metric_value self k (model_url item))"
  by (simp add: emitted_float_def emitted_metric)



subsection \<open>Rounding to doubles\<close>











lemma nearest_double_zero: "nearest_double 0 = 0"
  by (simp add: nearest_double_def)

text \<open>The facts that evaluate the float operations on numerals.\<close>

lemmas double_eval =
  nearest_double_def ulp_exp_def floor_log2_def compute_floorlog round_half_even_def Let_def
  float_add_def float_mul_def float_div_def py_round3_def




lemma py_round3_one: "py_round3 1 = 1"
  by (simp add: double_eval)




subsection \<open>The weighted loop\<close>

lemma weighted_loop_eq:
  "weighted_loop ws m (a, b) =
     (foldl float_add a (map (\<lambda>(k, w). float_mul (get_metric m k) w) (present ws m)),
      foldl float_add b (map snd (present ws m)))"
proof (induction ws arbitrary: a b)
  case Nil
  show ?case by (simp add: present_def)
next
  case (Cons p ws)
  obtain k w where p: "p = (k, w)" by (cases p)
  show ?case
  proof (cases "m k")
    case None
    then show ?thesis
      using Cons.IH [of a b] by (simp add: p present_def)
  next
    case (Some v)
    then show ?thesis
      using Cons.IH [of "float_add a (float_mul v w)" "float_add b w"]
      by (simp add: p present_def get_metric_def)
  qed
qed




lemma present_collected: "present weights (collected_metrics self url) = weights"
  by (simp add: present_def weights_def collected_metrics_apply metric_names_def)

lemma weights_total: "float_sum (map snd weights) = 1"
  by (simp add: float_sum_def weights_def double_eval)

lemma present_weight_collected: "present_weight weights (collected_metrics self url) = 1"
  by (simp add: present_weight_def present_collected weights_total)




lemma all_ones_net_score:
  "compute_net_score weights (\<lambda>k. if k \<in> set metric_names then Some 1 else None) = 1"
  by (simp add: compute_net_score_def weights_def metric_names_def double_eval)




subsection \<open>Calls of the concrete writers\<close>

lemma invoke_writer_of:
  "invoke (writer_of ev) k url = (if k \<in> set metric_names then ev k url else Inl KeyError)"
  by (simp add: invoke_def writer_of_def calc_calculate_def metric_names_def)

subsection \<open>The net score (C1)\<close>



subsection \<open>A raising evaluator (C2)\<close>

lemma block_of_try: "block_of self key url = try_except (body_of self key url) (default_zero key)"
  by (simp add: block_of_def body_of_def license_block_def performance_claims_block_def
        guarded_block_def)

lemma block_with_exits_eq:
  "block_with_exits ex self key url st =
     (case ex key url of
        Some b \<Rightarrow> Inl (Exiting b, st)
      | None \<Rightarrow>
          Inr (st\<lparr>all_metrics := (all_metrics st)(key \<mapsto> metric_value self key url),
                  total_latency := total_latency st + latency_added self key url\<rparr>))"
proof (cases "ex key url")
  case (Some b)
  then show ?thesis
    by (simp add: block_with_exits_def try_except_Exception_def body_with_exits_def)
next
  case None
  have "try_except (body_of self key url) (default_zero key) st =
      Inr (st\<lparr>all_metrics := (all_metrics st)(key \<mapsto> metric_value self key url),
              total_latency := total_latency st + latency_added self key url\<rparr>)"
    using block_of_eq [of self key url st] by (simp add: block_of_try)
  then show ?thesis
    using None
    by (auto simp: block_with_exits_def try_except_Exception_def body_with_exits_def
          try_except_def default_zero_def split: sum.splits prod.splits)
qed

lemma collect_with_exits_none:
  assumes "\<forall>k\<in>set metric_names. ex k url = None"
  shows "collect_with_exits ex self url \<lparr>all_metrics = Map.empty, total_latency = 0\<rparr> =
     Inr \<lparr>all_metrics = collected_metrics self url,
          total_latency = (\<Sum>k\<leftarrow>metric_names. latency_added self k url)\<rparr>"
proof -
  have n: "ex k url = None" if "k \<in> set metric_names" for k
    using assms that by simp
  show ?thesis
    by (simp add: collect_with_exits_def seq_exits_def block_with_exits_eq collected_metrics_def
          n metric_names_def)
qed

lemma write_with_exits_none:
  assumes "\<forall>k\<in>set metric_names. ex k (model_url item) = None"
  shows "write_with_exits ex hf self item = Inr (self\<lparr>out := out self @
       [Write_line
          (build_record hf (model_url item)
             (compute_net_score weights (collected_metrics self (model_url item)))
             \<lparr>all_metrics = collected_metrics self (model_url item),
              total_latency = (\<Sum>k\<leftarrow>metric_names. latency_added self k (model_url item))\<rparr>),
        Flush]\<rparr>)"
  using collect_with_exits_none [of ex "model_url item" self] assms
  by (simp add: write_with_exits_def)

text \<open>
  \<^verbatim>\<open>KeyboardInterrupt\<close> is no instance of \<^verbatim>\<open>Exception\<close>. When the call for
  \<^verbatim>\<open>license\<close> ends with it, no handler catches it: it leaves the write, and no line
  is written.
\<close>

theorem interrupt_escapes_write:
  "''license'' \<in> set metric_names \<and>
   license_interrupted ''license'' (model_url bert) = Some KeyboardInterrupt \<and>
   write_with_exits license_interrupted no_id all_ones bert = Inl (Exiting KeyboardInterrupt)"
  by (simp add: metric_names_def license_interrupted_def write_with_exits_def
        collect_with_exits_def seq_exits_def block_with_exits_eq)

text \<open>
  Claim C2, amended. For each of the eight metric names, when the call made for the
  metric raises an instance of \<^verbatim>\<open>Exception\<close>, and no call of the write ends with an
  exception outside \<^verbatim>\<open>Exception\<close> (which would leave the write with nothing
  written), the write ends normally, it appends exactly one line and one flush to the
  output, and the metric's value in the record of that line is \<open>0.0\<close>.
\<close>

theorem raising_evaluator_absorbed:
  assumes "key \<in> set metric_names"
    and "invoke self key (model_url item) = Inl e"
    and "\<forall>k\<in>set metric_names. ex k (model_url item) = None"
  shows "\<exists>r. write_with_exits ex hf self item =
               Inr (self\<lparr>out := out self @ [Write_line r, Flush]\<rparr>) \<and>
             map_of r key = Some (JFloat 0)"
proof -
  have "metric_value self key (model_url item) = 0"
    using assms(2) by (simp add: metric_value_def numeric_score_def)
  then have "emitted_field hf self item key = Some (JFloat 0)"
    using assms(1) by (simp add: emitted_metric)
  then have "map_of (build_record hf (model_url item)
      (compute_net_score weights (collected_metrics self (model_url item)))
      \<lparr>all_metrics = collected_metrics self (model_url item),
       total_latency = (\<Sum>k\<leftarrow>metric_names. latency_added self k (model_url item))\<rparr>) key =
      Some (JFloat 0)"
    by (simp add: emitted_field_def emitted_eq)
  moreover note write_with_exits_none [of ex item hf self]
  ultimately show ?thesis
    using assms(3) by auto
qed

theorem raising_evaluator_absorbed_witness:
  "''license'' \<in> set metric_names \<and>
   invoke license_raises ''license'' (model_url bert) = Inl EvaluatorFault \<and>
   list_all (\<lambda>k. no_exits k (model_url bert) = None) metric_names \<and>
   (\<exists>r. write_with_exits no_exits no_id license_raises bert =
           Inr (license_raises\<lparr>out := out license_raises @ [Write_line r, Flush]\<rparr>) \<and>
        map_of r ''license'' = Some (JFloat 0))"
proof -
  have k: "''license'' \<in> set metric_names"
    by (simp add: metric_names_def)
  have r: "invoke license_raises ''license'' (model_url bert) = Inl EvaluatorFault"
    by (simp add: license_raises_def invoke_writer_of metric_names_def raises_def)
  have n: "\<forall>k\<in>set metric_names. no_exits k (model_url bert) = None"
    by (simp add: no_exits_def)
  show ?thesis
    using k r n
      raising_evaluator_absorbed [of "''license''" license_raises bert EvaluatorFault no_exits no_id]
    by (simp add: list_all_iff)
qed

subsection \<open>The thresholded metric (C3)\<close>

text \<open>
  Claim C3. Whatever the evaluator of \<^verbatim>\<open>performance_claims\<close> does (any raw score, a
  missing score, no result, a raised exception), the field \<^verbatim>\<open>performance_claims\<close>
  of the emitted record is \<open>1.0\<close> when the raw score is a number that is at least
  \<open>0.5\<close> and \<open>0.0\<close> otherwise; it is never another value.
\<close>

theorem performance_claims_binary:
  "emitted_float hf self item ''performance_claims'' =
     Some (case numeric_score (perf_metric self (model_url item)) of
             None \<Rightarrow> 0
           | Some x \<Rightarrow> if 1 / 2 \<le> x then 1 else 0) \<and>
   (emitted_float hf self item ''performance_claims'' = Some 0 \<or>
    emitted_float hf self item ''performance_claims'' = Some 1)"
  by (simp add: emitted_float_metric metric_names_def metric_value_def invoke_def
        split: option.splits)

subsection \<open>Faults and the latency (C4)\<close>

text \<open>
  A result without a score is no fault for the block of \<^verbatim>\<open>ramp_up_time\<close>: the block
  stores \<open>0.0\<close> and then adds the latency of the result. With such a result of
  latency \<open>10\<close>, and every other evaluator raising, the block takes the latency from
  \<open>0\<close> to \<open>10\<close> and the record reports \<open>10\<close>.
\<close>

theorem unscored_result_adds_latency:
  "''ramp_up_time'' \<in> set metric_names \<and>
   score_missing (invoke ramp_up_unscored ''ramp_up_time'' (model_url bert)) \<and>
   block_of ramp_up_unscored ''ramp_up_time'' (model_url bert)
       \<lparr>all_metrics = Map.empty, total_latency = 0\<rparr> =
     Inr \<lparr>all_metrics = [''ramp_up_time'' \<mapsto> 0], total_latency = 10\<rparr> \<and>
   emitted_field no_id ramp_up_unscored bert ''latency'' = Some (JInt 10)"
proof -
  have i: "invoke ramp_up_unscored k (model_url bert) =
      (if k \<in> set metric_names
       then if k = ''ramp_up_time'' then Inr (Some \<lparr>score = ScoreNone, latency_ms = Some 10\<rparr>)
            else Inl EvaluatorFault
       else Inl KeyError)" for k
    by (simp add: ramp_up_unscored_def invoke_writer_of returns_def raises_def)
  have l: "latency_added ramp_up_unscored k (model_url bert) = (if k = ''ramp_up_time'' then 10 else 0)"
    if "k \<in> set metric_names" for k
    using that
    by (simp add: latency_added_def handler_runs_iff i reported_latency_def latency_or_zero_def
          metric_names_def)
  have v: "metric_value ramp_up_unscored ''ramp_up_time'' (model_url bert) = 0"
    by (simp add: metric_value_def i numeric_score_def metric_names_def)
  have "(\<Sum>k\<leftarrow>metric_names. latency_added ramp_up_unscored k (model_url bert)) = 10"
    by (simp add: metric_names_def l)
  then show ?thesis
    by (simp add: emitted_latency block_of_eq v l score_missing_def i metric_names_def)
qed

text \<open>
  Claim C4, amended. For every metric of the fixed set, when the call gives no numeric
  score (it raises, its evaluator is not found, it returns no result, or the score is
  missing or rejected by \<^verbatim>\<open>float()\<close>), the metric's entry is \<open>0.0\<close>, in the map after
  the block and in the emitted record. The block adds nothing to the latency, except
  when the result carries a missing score and the metric is not \<^verbatim>\<open>license\<close>: then
  the block adds the latency that the result reports.
\<close>

theorem fault_absorbed_by_block:
  assumes "key \<in> set metric_names"
    and "numeric_score (invoke self key (model_url item)) = None"
  shows "emitted_float hf self item key = Some 0 \<and>
         (\<exists>st'. block_of self key (model_url item) st = Inr st' \<and>
                all_metrics st' key = Some 0 \<and>
                total_latency st' = total_latency st +
                  (if score_missing (invoke self key (model_url item)) \<and> key \<noteq> ''license''
                   then reported_latency (invoke self key (model_url item)) else 0))"
proof -
  have v: "metric_value self key (model_url item) = 0"
    using assms(2) by (simp add: metric_value_def)
  have l: "latency_added self key (model_url item) =
      (if score_missing (invoke self key (model_url item)) \<and> key \<noteq> ''license''
       then reported_latency (invoke self key (model_url item)) else 0)"
    using assms(2)
    by (auto simp: latency_added_def handler_runs_iff score_missing_def numeric_score_def
          reported_latency_def split: sum.splits option.splits score_val.splits)
  show ?thesis
    using assms(1) by (simp add: emitted_float_metric block_of_eq v l)
qed

theorem fault_absorbed_by_block_witness:
  "''ramp_up_time'' \<in> set metric_names \<and>
   numeric_score (invoke ramp_up_unscored ''ramp_up_time'' (model_url bert)) = None \<and>
   emitted_float no_id ramp_up_unscored bert ''ramp_up_time'' = Some 0 \<and>
   (\<exists>st'. block_of ramp_up_unscored ''ramp_up_time'' (model_url bert) initial_locals = Inr st' \<and>
          all_metrics st' ''ramp_up_time'' = Some 0 \<and> total_latency st' = 10) \<and>
   ''license'' \<in> set metric_names \<and>
   numeric_score (invoke license_unscored ''license'' (model_url bert)) = None \<and>
   emitted_float no_id license_unscored bert ''license'' = Some 0 \<and>
   (\<exists>st'. block_of license_unscored ''license'' (model_url bert) initial_locals = Inr st' \<and>
          all_metrics st' ''license'' = Some 0 \<and> total_latency st' = 0)"
proof -
  have k1: "''ramp_up_time'' \<in> set metric_names" and k2: "''license'' \<in> set metric_names"
    by (simp_all add: metric_names_def)
  have i1: "invoke ramp_up_unscored ''ramp_up_time'' (model_url bert) =
      Inr (Some \<lparr>score = ScoreNone, latency_ms = Some 10\<rparr>)"
    by (simp add: ramp_up_unscored_def invoke_writer_of returns_def metric_names_def)
  have i2: "invoke license_unscored ''license'' (model_url bert) =
      Inr (Some \<lparr>score = ScoreNone, latency_ms = Some 10\<rparr>)"
    by (simp add: license_unscored_def invoke_writer_of returns_def metric_names_def)
  have n1: "numeric_score (invoke ramp_up_unscored ''ramp_up_time'' (model_url bert)) = None"
    by (simp add: i1 numeric_score_def)
  have n2: "numeric_score (invoke license_unscored ''license'' (model_url bert)) = None"
    by (simp add: i2 numeric_score_def)
  show ?thesis
    using k1 k2 n1 n2
      fault_absorbed_by_block [OF k1 n1, of no_id initial_locals]
      fault_absorbed_by_block [OF k2 n2, of no_id initial_locals]
    by (simp add: i1 i2 score_missing_def reported_latency_def latency_or_zero_def
          initial_locals_def)
qed

subsection \<open>The latency field (C5)\<close>

text \<open>
  The latency of a result is dropped when the handler of its block runs. With a
  \<^verbatim>\<open>license\<close> result that has no score, and latency \<open>10\<close> reported by all eight
  evaluators, the record reports \<open>70\<close>, not the floored sum \<open>80\<close> of the reported
  latencies.
\<close>

theorem absorbed_latency_dropped:
  "emitted_field no_id license_unscored bert ''latency'' = Some (JInt 70) \<and>
   max 1 (\<Sum>k\<leftarrow>metric_names. reported_latency (invoke license_unscored k (model_url bert))) = 80"
proof -
  have i: "invoke license_unscored k (model_url bert) =
      (if k \<in> set metric_names
       then Inr (Some \<lparr>score = (if k = ''license'' then ScoreNone else ScoreNum 1),
                       latency_ms = Some 10\<rparr>)
       else Inl KeyError)" for k
    by (simp add: license_unscored_def invoke_writer_of returns_def)
  have r: "reported_latency (invoke license_unscored k (model_url bert)) = 10"
    if "k \<in> set metric_names" for k
    using that by (simp add: i reported_latency_def latency_or_zero_def)
  have l: "latency_added license_unscored k (model_url bert) = (if k = ''license'' then 0 else 10)"
    if "k \<in> set metric_names" for k
    using that
    by (simp add: latency_added_def handler_runs_iff i reported_latency_def latency_or_zero_def)
  have "(\<Sum>k\<leftarrow>metric_names. latency_added license_unscored k (model_url bert)) = 70"
    by (simp add: metric_names_def l)
  moreover have "(\<Sum>k\<leftarrow>metric_names. reported_latency (invoke license_unscored k (model_url bert))) = 80"
    by (simp add: metric_names_def r)
  ultimately show ?thesis
    by (simp add: emitted_latency)
qed

text \<open>
  Claim C5, amended. The \<^verbatim>\<open>latency\<close> of the emitted record is the sum, floored at
  \<open>1\<close>, of the latencies reported by the evaluators whose block ends without its
  handler running; it is always at least \<open>1\<close>. When no handler runs, it is the
  floored sum of all the reported latencies.
\<close>

theorem latency_sum_floored:
  "emitted_field hf self item ''latency'' =
     Some (JInt (max 1 (\<Sum>k\<leftarrow>metric_names.
       if handler_runs self k (model_url item) then 0
       else reported_latency (invoke self k (model_url item))))) \<and>
   (\<exists>n. emitted_field hf self item ''latency'' = Some (JInt n) \<and> 1 \<le> n) \<and>
   ((\<forall>k\<in>set metric_names. \<not> handler_runs self k (model_url item)) \<longrightarrow>
      emitted_field hf self item ''latency'' =
        Some (JInt (max 1 (\<Sum>k\<leftarrow>metric_names. reported_latency (invoke self k (model_url item))))))"
proof -
  have e: "emitted_field hf self item ''latency'' =
     Some (JInt (max 1 (\<Sum>k\<leftarrow>metric_names.
       if handler_runs self k (model_url item) then 0
       else reported_latency (invoke self k (model_url item)))))"
    by (simp add: emitted_latency latency_added_def)
  have "(\<Sum>k\<leftarrow>metric_names. if handler_runs self k (model_url item) then 0
             else reported_latency (invoke self k (model_url item))) =
        (\<Sum>k\<leftarrow>metric_names. reported_latency (invoke self k (model_url item)))"
    if "\<forall>k\<in>set metric_names. \<not> handler_runs self k (model_url item)"
    using that by (intro arg_cong [where f = sum_list] map_cong) simp_all
  then show ?thesis
    using e by simp
qed

theorem latency_sum_floored_witness:
  "list_all (\<lambda>k. \<not> handler_runs no_latency k (model_url bert)) metric_names \<and>
   (\<Sum>k\<leftarrow>metric_names. reported_latency (invoke no_latency k (model_url bert))) = 0 \<and>
   emitted_field no_id no_latency bert ''latency'' = Some (JInt 1)"
proof -
  have i: "invoke no_latency k (model_url bert) =
      (if k \<in> set metric_names then Inr (Some \<lparr>score = ScoreNum 1, latency_ms = None\<rparr>)
       else Inl KeyError)" for k
    by (simp add: no_latency_def invoke_writer_of returns_def)
  have h: "\<forall>k\<in>set metric_names. \<not> handler_runs no_latency k (model_url bert)"
    by (simp add: handler_runs_iff i)
  have r: "(\<Sum>k\<leftarrow>metric_names. reported_latency (invoke no_latency k (model_url bert))) = 0"
    by (simp add: metric_names_def i reported_latency_def latency_or_zero_def)
  from h latency_sum_floored [of no_id no_latency bert]
  have "emitted_field no_id no_latency bert ''latency'' =
      Some (JInt (max 1 (\<Sum>k\<leftarrow>metric_names. reported_latency (invoke no_latency k (model_url bert)))))"
    by blast
  then show ?thesis
    using h r by (simp add: list_all_iff)
qed

subsection \<open>Presence and range of the numeric fields (C6)\<close>




subsection \<open>All evaluators at their best (C7)\<close>

text \<open>
  Claim C7. When each of the eight evaluators returns score \<open>1.0\<close> and latency
  \<open>10\<close>, the emitted record has \<^verbatim>\<open>NET_SCORE\<close> \<open>1.0\<close>, \<^verbatim>\<open>latency\<close> \<open>80\<close> and
  \<^verbatim>\<open>performance_claims\<close> \<open>1.0\<close>. The instance below is the artifact
  \<^verbatim>\<open>https://huggingface.co/bert-base-uncased\<close>.
\<close>

theorem all_ones_record:
  assumes "\<forall>k\<in>set metric_names.
             invoke self k (model_url item) = Inr (Some \<lparr>score = ScoreNum 1, latency_ms = Some 10\<rparr>)"
  shows "emitted_field hf self item ''NET_SCORE'' = Some (JFloat 1) \<and>
         emitted_field hf self item ''latency'' = Some (JInt 80) \<and>
         emitted_field hf self item ''performance_claims'' = Some (JFloat 1)"
proof -
  have v: "metric_value self k (model_url item) = 1" if "k \<in> set metric_names" for k
    using assms that by (simp add: metric_value_def numeric_score_def py_round3_one)
  have l: "latency_added self k (model_url item) = 10" if "k \<in> set metric_names" for k
    using assms that
    by (simp add: latency_added_def handler_runs_iff reported_latency_def latency_or_zero_def)
  have m: "collected_metrics self (model_url item) k = (if k \<in> set metric_names then Some 1 else None)" for k
    by (simp add: collected_metrics_apply v)
  have "collected_metrics self (model_url item) =
      (\<lambda>k. if k \<in> set metric_names then Some 1 else None)"
    by (rule ext) (rule m)
  then have "compute_net_score weights (collected_metrics self (model_url item)) = 1"
    by (simp only: all_ones_net_score)
  moreover have "(\<Sum>k\<leftarrow>metric_names. latency_added self k (model_url item)) = 80"
    using l by (simp add: metric_names_def)
  moreover have "emitted_field hf self item ''performance_claims'' = Some (JFloat 1)"
    using v [of "''performance_claims''"] by (simp add: emitted_metric metric_names_def)
  ultimately show ?thesis
    by (simp add: emitted_net_score emitted_latency)
qed

theorem all_ones_record_witness:
  "list_all (\<lambda>k. invoke all_ones k (model_url bert) =
               Inr (Some \<lparr>score = ScoreNum 1, latency_ms = Some 10\<rparr>)) metric_names \<and>
   emitted_field no_id all_ones bert ''NET_SCORE'' = Some (JFloat 1) \<and>
   emitted_field no_id all_ones bert ''latency'' = Some (JInt 80) \<and>
   emitted_field no_id all_ones bert ''performance_claims'' = Some (JFloat 1)"
proof -
  have h: "\<forall>k\<in>set metric_names.
      invoke all_ones k (model_url bert) = Inr (Some \<lparr>score = ScoreNum 1, latency_ms = Some 10\<rparr>)"
    by (simp add: all_ones_def invoke_writer_of returns_def)
  show ?thesis
    using h all_ones_record [OF h, of no_id] by (simp add: list_all_iff)
qed

subsection \<open>The name (C8)\<close>

text \<open>
  Claim C8. The \<^verbatim>\<open>name\<close> of the emitted record is the identifier that the
  resolver produces for the URL when it produces one (a non-empty string), and the
  raw URL when the resolver yields none (\<^verbatim>\<open>None\<close>, or the empty string, which
  Python's \<^verbatim>\<open>or\<close> treats alike).
\<close>

theorem name_resolved_or_url:
  "(hf (model_url item) = Some s \<and> s \<noteq> [] \<longrightarrow>
      emitted_field hf self item ''name'' = Some (JString s)) \<and>
   (hf (model_url item) = None \<or> hf (model_url item) = Some [] \<longrightarrow>
      emitted_field hf self item ''name'' = Some (JString (model_url item)))"
  by (auto simp: emitted_name name_or_url_def)

theorem name_resolved_or_url_witness:
  "bert_id (model_url bert) = Some ''bert-base-uncased'' \<and>
   emitted_field bert_id all_ones bert ''name'' = Some (JString ''bert-base-uncased'') \<and>
   no_id (model_url bert) = None \<and>
   emitted_field no_id all_ones bert ''name'' =
     Some (JString ''https://huggingface.co/bert-base-uncased'')"
  using name_resolved_or_url [of bert_id bert "''bert-base-uncased''" all_ones]
    name_resolved_or_url [of no_id bert "[]" all_ones]
  by (simp add: bert_id_def no_id_def bert_def)

subsection \<open>The shape of the record (C9)\<close>

text \<open>
  Claim C9. Whatever the evaluators and the resolver do, the emitted record has
  exactly the keys \<^verbatim>\<open>name\<close>, \<^verbatim>\<open>category\<close>, \<^verbatim>\<open>NET_SCORE\<close>, \<^verbatim>\<open>ramp_up_time\<close>,
  \<^verbatim>\<open>bus_factor\<close>, \<^verbatim>\<open>performance_claims\<close>, \<^verbatim>\<open>license\<close>, \<^verbatim>\<open>size_score\<close>,
  \<^verbatim>\<open>dataset_and_code_score\<close>, \<^verbatim>\<open>dataset_quality\<close>, \<^verbatim>\<open>code_quality\<close>, \<^verbatim>\<open>latency\<close>,
  in this order, and its \<^verbatim>\<open>category\<close> is the string \<^verbatim>\<open>MODEL\<close>.
\<close>

theorem record_keys_and_category:
  "\<exists>r. emitted hf self item = Some r \<and>
       map fst r =
         [''name'', ''category'', ''NET_SCORE'', ''ramp_up_time'', ''bus_factor'',
          ''performance_claims'', ''license'', ''size_score'', ''dataset_and_code_score'',
          ''dataset_quality'', ''code_quality'', ''latency''] \<and>
       map_of r ''category'' = Some (JString ''MODEL'')"
  by (simp add: emitted_eq build_record_def)

subsection \<open>The degenerate branch (C10)\<close>

text \<open>
  Claim C10. In every write, the eight blocks end normally and leave a metrics map
  whose keys are the eight metric names, which are the keys of the weight table. The
  loop therefore accumulates the total weight \<open>1\<close>, which is positive, and the net
  score is the rounded quotient: the branch that gives \<open>0.0\<close> for a total weight
  that is not positive is never taken.
\<close>

theorem all_metrics_collected:
  "\<exists>st. collect_metrics self url \<lparr>all_metrics = Map.empty, total_latency = 0\<rparr> = Inr st \<and>
        dom (all_metrics st) = set metric_names \<and>
        set (map fst weights) = set metric_names \<and>
        snd (weighted_loop weights (all_metrics st) (0, 0)) = 1 \<and>
        0 < snd (weighted_loop weights (all_metrics st) (0, 0)) \<and>
        compute_net_score weights (all_metrics st) =
          py_round3 (float_div (fst (weighted_loop weights (all_metrics st) (0, 0)))
                               (snd (weighted_loop weights (all_metrics st) (0, 0))))"
proof -
  have k: "set (map fst weights) = set metric_names"
    by (auto simp: weights_def metric_names_def)
  have t: "snd (weighted_loop weights (collected_metrics self url) (0, 0)) = 1"
    using present_weight_collected [of self url]
    by (simp add: weighted_loop_eq present_weight_def float_sum_def)
  have "compute_net_score weights (collected_metrics self url) =
      py_round3 (float_div (fst (weighted_loop weights (collected_metrics self url) (0, 0)))
                           (snd (weighted_loop weights (collected_metrics self url) (0, 0))))"
    using t by (cases "weighted_loop weights (collected_metrics self url) (0, 0)")
      (simp add: compute_net_score_def)
  then show ?thesis
    using k t by (simp add: collect_initial dom_collected_metrics)
qed

end
